theory Spec2Isabelle
  imports Complex_Main "HOL-Library.Word" "HOL-Library.Product_Lexorder"
begin

section \<open>The embedding cache and the similarity retriever of SesameChat\<close>

text \<open>
  The repository holds two programs, \<^verbatim>\<open>SesameChat.py\<close> (a console loop) and
  \<^verbatim>\<open>SesameChatAPI.py\<close> (a Flask application). They share \<^verbatim>\<open>compute_md5\<close>,
  \<^verbatim>\<open>load_or_generate_embeddings\<close> and \<^verbatim>\<open>get_relevant_context\<close> word for word (the
  console program prints progress messages in addition), and differ in \<^verbatim>\<open>ollama_chat\<close> only
  by the separator that joins the retrieved context.

  Files, the embedding service and the chat model are outside the programs. The files and
  the log of the calls made to the two services form an explicit \<open>world\<close> that every
  function takes and returns; an exception is the \<open>Inl\<close> branch of a sum, returned together
  with the world reached when it was raised.
\<close>

subsection \<open>Exceptions\<close>

datatype error =
    FileNotFoundError   \<comment> \<open>\<^verbatim>\<open>open(filepath, 'rb')\<close> on a missing file\<close>
  | KeyError            \<comment> \<open>\<^verbatim>\<open>response["embedding"]\<close> on a response without that key\<close>
  | ValueError          \<comment> \<open>\<^verbatim>\<open>torch.tensor\<close> on rows of different lengths\<close>
  | RuntimeError        \<comment> \<open>\<^verbatim>\<open>torch.cosine_similarity\<close> on shapes that do not broadcast,
                            \<^verbatim>\<open>torch.topk\<close> with \<open>k\<close> out of range\<close>
  | IndexError          \<comment> \<open>\<^verbatim>\<open>vault_content[idx]\<close> out of range\<close>
  | ConnectionError     \<comment> \<open>\<^verbatim>\<open>ollama.chat\<close> when the server is not reached or refuses\<close>

subsection \<open>Strings\<close>

text \<open>
  Strings are byte lists. \<^verbatim>\<open>str.strip()\<close> removes leading and trailing whitespace; on
  ASCII the whitespace characters of Python are the space, \<^verbatim>\<open>\t \n \v \f \r\<close> and the four
  separators \<^verbatim>\<open>\x1c\<close> to \<^verbatim>\<open>\x1f\<close>. The model strips these; the whitespace of Unicode
  beyond ASCII, which Python strips too, is left in place.
\<close>

definition isspace :: "char \<Rightarrow> bool" where
  "isspace c =
     (let n = (of_char c :: nat) in n = 32 \<or> (9 \<le> n \<and> n \<le> 13) \<or> (28 \<le> n \<and> n \<le> 31))"

definition strip :: "string \<Rightarrow> string" where
  "strip s = rev (dropWhile isspace (rev (dropWhile isspace s)))"

text \<open>\<^verbatim>\<open>sep.join(items)\<close>.\<close>

fun join :: "string \<Rightarrow> string list \<Rightarrow> string" where
  "join sep [] = []"
| "join sep [x] = x"
| "join sep (x # y # ys) = x @ sep @ join sep (y # ys)"

text \<open>
  Reading a file in text mode turns \<^verbatim>\<open>\r\n\<close> and a single \<^verbatim>\<open>\r\<close> into \<^verbatim>\<open>\n\<close>. The
  bytes are taken to be valid UTF-8: the decoding error of other bytes is not modelled.
\<close>

fun universal_newlines :: "string \<Rightarrow> string" where
  "universal_newlines [] = []"
| "universal_newlines [c] = (if c = CHR 0x0D then [CHR 0x0A] else [c])"
| "universal_newlines (c # d # cs) =
     (if c = CHR 0x0D \<and> d = CHR 0x0A then CHR 0x0A # universal_newlines cs
      else if c = CHR 0x0D then CHR 0x0A # universal_newlines (d # cs)
      else c # universal_newlines (d # cs))"

text \<open>\<^verbatim>\<open>file.readlines()\<close>: the lines of the text, each with its line end.\<close>

fun readlines :: "string \<Rightarrow> string list" where
  "readlines [] = []"
| "readlines (c # cs) =
     (if c = CHR 0x0A then [c] # readlines cs
      else (case readlines cs of [] \<Rightarrow> [[c]] | l # ls \<Rightarrow> (c # l) # ls))"

subsection \<open>Tensors\<close>

text \<open>
  A tensor of embeddings is the list of its rows. \<^verbatim>\<open>torch.tensor\<close> accepts a list of rows of
  one length (the empty list included) and raises \<^verbatim>\<open>ValueError\<close> otherwise, except
  that after an empty first row it reads no other row and gives the shape \<open>(n, 0)\<close>;
  \<^verbatim>\<open>nelement()\<close> is the number of scalars. Components are real numbers: rounding and
  the special values of floating point are not modelled.
\<close>

type_synonym tensor = "real list list"

definition torch_tensor :: "real list list \<Rightarrow> error + tensor" where
  "torch_tensor rows =
     (case rows of
        [] \<Rightarrow> Inr []
      | r # rs \<Rightarrow>
          if r = [] then Inr (map (\<lambda>x. []) rows)
          else if list_all (\<lambda>x. length x = length r) rs then Inr rows
          else Inl ValueError)"

definition nelement :: "tensor \<Rightarrow> nat" where
  "nelement t = sum_list (map length t)"

subsection \<open>The world: files and service logs\<close>

definition VAULT_FILE :: string where "VAULT_FILE = ''vault.txt''"
definition EMBEDDINGS_FILE :: string where "EMBEDDINGS_FILE = ''vault_embeddings.pt''"
definition CHECKSUM_FILE :: string where "CHECKSUM_FILE = ''vault_checksum.txt''"

text \<open>A chat message, \<^verbatim>\<open>{"role": ..., "content": ...}\<close>.\<close>

record message =
  msg_role :: string
  msg_content :: string

text \<open>
  Each of the three files is absent (\<open>None\<close>) or holds its content: the two text files
  hold bytes, the embeddings file holds the tensor \<^verbatim>\<open>torch.save\<close> wrote, which is what
  \<^verbatim>\<open>torch.load\<close> returns. \<open>writes\<close> lists the files written, oldest first;
  \<open>embed_calls\<close> and \<open>chat_calls\<close> list the requests sent to the embedding service
  (model, prompt) and to the chat model (model, messages), oldest first.
\<close>

record world =
  vault_file :: "string option"
  checksum_file :: "string option"
  embeddings_file :: "tensor option"
  writes :: "string list"
  embed_calls :: "(string \<times> string) list"
  chat_calls :: "(string \<times> message list) list"

text \<open>
  What the programs cannot compute themselves. \<open>hashlib_md5\<close> is the MD5 digest of a byte
  string. \<open>ollama_embeddings\<close> is the answer of the embedding service, the dictionary the
  client library returns: the programs tell a failed embedding from a successful one by the
  key \<^verbatim>\<open>"embedding"\<close>. \<open>ollama_chat_service\<close> is the outcome of a chat request: the
  dictionary returned, or the exception \<^verbatim>\<open>ollama.chat\<close> raises when the server is not
  reached or refuses the request. \<open>cosine\<close> is the similarity \<^verbatim>\<open>torch.cosine_similarity\<close>
  computes for two vectors of one length. \<open>topk_tie\<close> is the part of \<^verbatim>\<open>torch.topk\<close> its
  documentation leaves open: for given scores and \<open>k\<close>, the rank it gives an index among
  the indices of equal score (a smaller rank is taken first).
\<close>

record env =
  hashlib_md5 :: "string \<Rightarrow> 128 word"
  ollama_embeddings :: "string \<Rightarrow> string \<Rightarrow> (string \<rightharpoonup> real list)"
  ollama_chat_service :: "string \<Rightarrow> message list \<Rightarrow> error + (string \<rightharpoonup> (string \<rightharpoonup> string))"
  cosine :: "real list \<Rightarrow> real list \<Rightarrow> real"
  topk_tie :: "real list \<Rightarrow> nat \<Rightarrow> nat \<Rightarrow> nat"

type_synonym 'a result = "(error + 'a) \<times> world"

subsection \<open>\<^verbatim>\<open>compute_md5\<close>\<close>

text \<open>
  The hasher is the bytes fed to it so far: \<^verbatim>\<open>update\<close> appends, \<^verbatim>\<open>hexdigest\<close> prints
  the digest of all of them as 32 lower-case hexadecimal digits, most significant first.
\<close>

definition hexchar :: "nat \<Rightarrow> char" where
  "hexchar n = char_of (if n < 10 then 48 + n else 87 + n)"

definition hexdigest :: "128 word \<Rightarrow> string" where
  "hexdigest d = map (\<lambda>i. hexchar (unat (drop_bit (4 * (31 - i)) d) mod 16)) [0..<32]"

text \<open>
  \<^verbatim>\<open>for chunk in iter(lambda: f.read(4096), b""): hasher.update(chunk)\<close>: the loop reads
  4096 bytes at a time and stops at the first empty read.
\<close>

function update_chunks :: "string \<Rightarrow> string \<Rightarrow> string" where
  "update_chunks hasher rest =
     (let chunk = take 4096 rest
      in if chunk = [] then hasher else update_chunks (hasher @ chunk) (drop 4096 rest))"
  by pat_completeness auto
termination
  by (relation "measure (\<lambda>(hasher, rest). length rest)") auto

declare update_chunks.simps [simp del]

text \<open>
  \<^verbatim>\<open>compute_md5(filepath)\<close>; both programs call it on \<^verbatim>\<open>VAULT_FILE\<close> only, and the model
  reads that file. Opening a missing file raises.
\<close>

definition compute_md5 :: "env \<Rightarrow> world \<Rightarrow> error + string" where
  "compute_md5 e w =
     (case vault_file w of
        None \<Rightarrow> Inl FileNotFoundError
      | Some bytes \<Rightarrow> Inr (hexdigest (hashlib_md5 e (update_chunks [] bytes))))"

subsection \<open>Calls to the Ollama server\<close>

text \<open>
  \<^verbatim>\<open>ollama.embeddings(model=..., prompt=...)\<close> and \<^verbatim>\<open>ollama.chat(model=...,
  messages=...)\<close>: the answer (for the chat request, the answer or the exception), and the
  world with the request logged.
\<close>

definition call_embeddings ::
  "env \<Rightarrow> string \<Rightarrow> string \<Rightarrow> world \<Rightarrow> (string \<rightharpoonup> real list) \<times> world" where
  "call_embeddings e model prompt w =
     (ollama_embeddings e model prompt, w\<lparr>embed_calls := embed_calls w @ [(model, prompt)]\<rparr>)"

definition call_chat ::
  "env \<Rightarrow> string \<Rightarrow> message list \<Rightarrow> world
     \<Rightarrow> (error + (string \<rightharpoonup> (string \<rightharpoonup> string))) \<times> world" where
  "call_chat e model messages w =
     (ollama_chat_service e model messages, w\<lparr>chat_calls := chat_calls w @ [(model, messages)]\<rparr>)"

subsection \<open>\<^verbatim>\<open>load_or_generate_embeddings\<close>\<close>

text \<open>
  The first lines of the function: the saved checksum is the stripped content of the
  checksum file, or the empty string when there is no such file.
\<close>

definition saved_checksum :: "world \<Rightarrow> string" where
  "saved_checksum w = (case checksum_file w of Some s \<Rightarrow> strip s | None \<Rightarrow> [])"

text \<open>
  The loop over \<^verbatim>\<open>vault_content\<close>: one request per entry, in order; the vector of an
  answer with the key \<^verbatim>\<open>"embedding"\<close> is appended, any other answer is passed over.
\<close>

fun generate :: "env \<Rightarrow> string list \<Rightarrow> real list list \<Rightarrow> world \<Rightarrow> real list list \<times> world" where
  "generate e [] vault_embeddings w = (vault_embeddings, w)"
| "generate e (content # rest) vault_embeddings w =
     (let (response, w') = call_embeddings e ''mxbai-embed-large:latest'' content w
      in case response ''embedding'' of
           Some v \<Rightarrow> generate e rest (vault_embeddings @ [v]) w'
         | None \<Rightarrow> generate e rest vault_embeddings w')"

text \<open>\<^verbatim>\<open>torch.save(vault_embeddings_tensor, EMBEDDINGS_FILE)\<close>.\<close>

definition torch_save :: "tensor \<Rightarrow> world \<Rightarrow> world" where
  "torch_save t w = w\<lparr>embeddings_file := Some t, writes := writes w @ [EMBEDDINGS_FILE]\<rparr>"

text \<open>\<^verbatim>\<open>with open(CHECKSUM_FILE, "w") as f: f.write(current_checksum)\<close>.\<close>

definition write_checksum :: "string \<Rightarrow> world \<Rightarrow> world" where
  "write_checksum c w = w\<lparr>checksum_file := Some c, writes := writes w @ [CHECKSUM_FILE]\<rparr>"

text \<open>
  The part of the function after the test of the cache: the loop and \<^verbatim>\<open>torch.tensor\<close>,
  then the two writes, the embeddings first.
\<close>

definition generate_tensor :: "env \<Rightarrow> string list \<Rightarrow> world \<Rightarrow> tensor result" where
  "generate_tensor e vault_content w =
     (let (vault_embeddings, w1) = generate e vault_content [] w
      in (torch_tensor vault_embeddings, w1))"

definition regenerate :: "env \<Rightarrow> string list \<Rightarrow> string \<Rightarrow> world \<Rightarrow> (tensor \<times> string) result" where
  "regenerate e vault_content current_checksum w =
     (case generate_tensor e vault_content w of
        (Inl err, w1) \<Rightarrow> (Inl err, w1)
      | (Inr vault_embeddings_tensor, w1) \<Rightarrow>
          (let w2 = torch_save vault_embeddings_tensor w1;
               w3 = write_checksum current_checksum w2
           in (Inr (vault_embeddings_tensor, current_checksum), w3)))"

definition load_or_generate_embeddings :: "env \<Rightarrow> string list \<Rightarrow> world \<Rightarrow> (tensor \<times> string) result" where
  "load_or_generate_embeddings e vault_content w =
     (case compute_md5 e w of
        Inl err \<Rightarrow> (Inl err, w)
      | Inr current_checksum \<Rightarrow>
          if saved_checksum w = current_checksum then
            (case embeddings_file w of
               Some saved \<Rightarrow> (Inr (saved, current_checksum), w)
             | None \<Rightarrow> regenerate e vault_content current_checksum w)
          else regenerate e vault_content current_checksum w)"

subsection \<open>\<^verbatim>\<open>get_relevant_context\<close>\<close>

text \<open>
  \<^verbatim>\<open>torch.cosine_similarity(q.unsqueeze(0), vault_embeddings)\<close> compares the query with
  every row along dimension 1. The two sizes of that dimension must be equal or one of
  them 1, and a vector of size 1 is then repeated to the other size; any other pair of sizes
  raises \<^verbatim>\<open>RuntimeError\<close>.
\<close>

definition broadcast_dim :: "nat \<Rightarrow> nat \<Rightarrow> nat option" where
  "broadcast_dim a b =
     (if a = b then Some a else if a = 1 then Some b else if b = 1 then Some a else None)"

definition expand :: "nat \<Rightarrow> real list \<Rightarrow> real list" where
  "expand d v = (if length v = d then v else replicate d (v ! 0))"

fun cosine_similarity :: "env \<Rightarrow> real list \<Rightarrow> tensor \<Rightarrow> error + real list" where
  "cosine_similarity e q [] = Inr []"
| "cosine_similarity e q (v # vs) =
     (case broadcast_dim (length q) (length v) of
        None \<Rightarrow> Inl RuntimeError
      | Some d \<Rightarrow>
          (case cosine_similarity e q vs of
             Inl err \<Rightarrow> Inl err
           | Inr scores \<Rightarrow> Inr (cosine e (expand d q) (expand d v) # scores)))"

text \<open>
  \<^verbatim>\<open>torch.topk(cos_scores, k=top_k)[1].tolist()\<close>: the indices of the \<open>k\<close> largest
  scores, largest first; \<open>k\<close> outside \<open>0 .. len\<close> raises \<^verbatim>\<open>RuntimeError\<close>. Which of
  several equal scores are taken, and in which order, is the library's: \<open>ranking tie\<close> lists
  all indices by falling score and, among equal scores, by rising \<open>tie\<close>, and \<open>topk\<close>
  takes the first \<open>k\<close> of the ranking under the ranks \<open>topk_tie\<close> gives for these scores
  and this \<open>k\<close>.
\<close>

definition ranking :: "(nat \<Rightarrow> nat) \<Rightarrow> real list \<Rightarrow> nat list" where
  "ranking tie scores = sort_key (\<lambda>i. (- (scores ! i), tie i)) [0..<length scores]"

definition topk :: "env \<Rightarrow> real list \<Rightarrow> int \<Rightarrow> error + nat list" where
  "topk e scores k =
     (if k < 0 \<or> int (length scores) < k then Inl RuntimeError
      else Inr (take (nat k) (ranking (topk_tie e scores (nat k)) scores)))"

text \<open>
  The order the specification speaks of for pairwise distinct similarities: all indices by
  falling score.
\<close>

definition descending_order :: "real list \<Rightarrow> nat list" where
  "descending_order scores = sort_key (\<lambda>i. - (scores ! i)) [0..<length scores]"

text \<open>\<^verbatim>\<open>[vault_content[idx].strip() for idx in top_indices]\<close>.\<close>

fun context_of :: "string list \<Rightarrow> nat list \<Rightarrow> error + string list" where
  "context_of vault_content [] = Inr []"
| "context_of vault_content (idx # rest) =
     (if idx < length vault_content then
        (case context_of vault_content rest of
           Inl err \<Rightarrow> Inl err
         | Inr xs \<Rightarrow> Inr (strip (vault_content ! idx) # xs))
      else Inl IndexError)"

definition get_relevant_context ::
  "env \<Rightarrow> string \<Rightarrow> tensor \<Rightarrow> string list \<Rightarrow> int \<Rightarrow> world \<Rightarrow> string list result" where
  "get_relevant_context e rewritten_input vault_embeddings vault_content top_k w =
     (if nelement vault_embeddings = 0 then (Inr [], w)
      else
        (let (response, w1) = call_embeddings e ''mxbai-embed-large'' rewritten_input w
         in case response ''embedding'' of
              None \<Rightarrow> (Inl KeyError, w1)
            | Some input_embedding \<Rightarrow>
                (case cosine_similarity e input_embedding vault_embeddings of
                   Inl err \<Rightarrow> (Inl err, w1)
                 | Inr cos_scores \<Rightarrow>
                     (case topk e cos_scores (min top_k (int (length cos_scores))) of
                        Inl err \<Rightarrow> (Inl err, w1)
                      | Inr top_indices \<Rightarrow>
                          (case context_of vault_content top_indices of
                             Inl err \<Rightarrow> (Inl err, w1)
                           | Inr relevant_context \<Rightarrow> (Inr relevant_context, w1))))))"

subsection \<open>\<^verbatim>\<open>ollama_chat\<close>\<close>

text \<open>
  The console program joins the retrieved context with one line feed, the Flask
  application with two; nothing else differs between their \<^verbatim>\<open>ollama_chat\<close>.
\<close>

datatype program = Console | Api

fun context_separator :: "program \<Rightarrow> string" where
  "context_separator Console = [CHR 0x0A]"
| "context_separator Api = [CHR 0x0A, CHR 0x0A]"

definition no_response_content :: string where
  "no_response_content = ''No response content.''"

text \<open>\<^verbatim>\<open>response.get('message', {}).get('content', "No response content.")\<close>.\<close>

definition response_content :: "(string \<rightharpoonup> (string \<rightharpoonup> string)) \<Rightarrow> string" where
  "response_content response =
     (case response ''message'' of
        None \<Rightarrow> no_response_content
      | Some m \<Rightarrow> (case m ''content'' of None \<Rightarrow> no_response_content | Some c \<Rightarrow> c))"

text \<open>
  The function appends to the list it is given; the model returns the list as the call
  leaves it, also when the call raises. Nothing catches an exception of \<^verbatim>\<open>ollama.chat\<close>:
  it leaves the function after the user entry was appended.
\<close>

definition ollama_chat ::
  "program \<Rightarrow> env \<Rightarrow> string \<Rightarrow> string \<Rightarrow> tensor \<Rightarrow> string list \<Rightarrow> string \<Rightarrow> message list \<Rightarrow> world
     \<Rightarrow> (error + string) \<times> message list \<times> world" where
  "ollama_chat p e user_input system_message vault_embeddings vault_content ollama_model
       conversation_history w =
     (case get_relevant_context e user_input vault_embeddings vault_content 3 w of
        (Inl err, w1) \<Rightarrow> (Inl err, conversation_history, w1)
      | (Inr relevant_context, w1) \<Rightarrow>
          (let user_input_with_context =
                 (if relevant_context \<noteq> []
                  then join (context_separator p) relevant_context @ [CHR 0x0A, CHR 0x0A] @ user_input
                  else user_input);
               history1 = conversation_history
                  @ [\<lparr>msg_role = ''user'', msg_content = user_input_with_context\<rparr>];
               messages = \<lparr>msg_role = ''system'', msg_content = system_message\<rparr> # history1
           in case call_chat e ollama_model messages w1 of
                (Inl err, w2) \<Rightarrow> (Inl err, history1, w2)
              | (Inr response, w2) \<Rightarrow>
                  (let history2 =
                     (case response ''message'' of
                        None \<Rightarrow>
                          history1 @ [\<lparr>msg_role = ''assistant'', msg_content = no_response_content\<rparr>]
                      | Some m \<Rightarrow>
                          (case m ''content'' of
                             None \<Rightarrow>
                               history1
                                 @ [\<lparr>msg_role = ''assistant'', msg_content = no_response_content\<rparr>]
                           | Some c \<Rightarrow>
                               history1 @ [\<lparr>msg_role = ''assistant'', msg_content = c\<rparr>]))
                   in (Inr (response_content response), history2, w2))))"

text \<open>
  The entry \<^verbatim>\<open>ollama_chat\<close> appends for the user: the input, preceded by the joined context
  and two line feeds when some context was retrieved.
\<close>

definition user_message :: "program \<Rightarrow> string list \<Rightarrow> string \<Rightarrow> message" where
  "user_message p relevant_context user_input =
     \<lparr>msg_role = ''user'',
      msg_content =
        (if relevant_context \<noteq> []
         then join (context_separator p) relevant_context @ [CHR 0x0A, CHR 0x0A] @ user_input
         else user_input)\<rparr>"

subsection \<open>Module initialisation and the \<^verbatim>\<open>/chat\<close> endpoint\<close>

text \<open>
  The module-level variables of both programs (\<^verbatim>\<open>vault_content\<close>,
  \<^verbatim>\<open>vault_embeddings_tensor\<close>, \<^verbatim>\<open>current_checksum\<close>, \<^verbatim>\<open>conversation_history\<close>,
  \<^verbatim>\<open>system_message\<close>), each field with the prefix \<open>app_\<close>. The system message is a
  constant text of the programs, kept as a field.
\<close>

record app =
  app_vault_content :: "string list"
  app_vault_embeddings_tensor :: tensor
  app_current_checksum :: string
  app_conversation_history :: "message list"
  app_system_message :: string

text \<open>
  The statements both modules run when they start: read the vault if it exists, else keep
  the empty list; then load or generate the embeddings; then start with an empty history.
\<close>

definition startup :: "env \<Rightarrow> string \<Rightarrow> world \<Rightarrow> app result" where
  "startup e sysmsg w =
     (let content0 = (case vault_file w of Some bytes \<Rightarrow> readlines (universal_newlines bytes) | None \<Rightarrow> [])
      in case load_or_generate_embeddings e content0 w of
           (Inl err, w') \<Rightarrow> (Inl err, w')
         | (Inr (t, c), w') \<Rightarrow>
             (Inr \<lparr>app_vault_content = content0, app_vault_embeddings_tensor = t, app_current_checksum = c,
                   app_conversation_history = [], app_system_message = sysmsg\<rparr>, w'))"

text \<open>
  The handler of \<^verbatim>\<open>POST /chat\<close>. The body is the JSON object of the request, with
  string values; the answer is the JSON object given to \<^verbatim>\<open>jsonify\<close> and the status (200
  when the handler names none).
\<close>

type_synonym http_response = "(string \<times> string) list \<times> nat"

definition chat :: "env \<Rightarrow> (string \<rightharpoonup> string) \<Rightarrow> app \<Rightarrow> world \<Rightarrow> (error + http_response) \<times> app \<times> world" where
  "chat e data a w =
     (let user_input = (case data ''user_input'' of Some s \<Rightarrow> s | None \<Rightarrow> [])
      in if user_input = [] then
           (Inr ([(''error'', ''Missing 'user_input' in request'')], 400), a, w)
         else
           (case ollama_chat Api e user_input (app_system_message a) (app_vault_embeddings_tensor a)
                   (app_vault_content a) ''llama3.2:latest'' (app_conversation_history a) w of
              (Inl err, h, w') \<Rightarrow> (Inl err, a\<lparr>app_conversation_history := h\<rparr>, w')
            | (Inr response, h, w') \<Rightarrow>
                (Inr ([(''response'', response)], 200), a\<lparr>app_conversation_history := h\<rparr>, w')))"

subsection \<open>A small vault\<close>

text \<open>
  Concrete data on which the theorems below are tried: a vault of four lines, an embedding
  service that knows three of them and the query, a chat model whose answer has a message
  under one model name and none under any other, a \<^verbatim>\<open>torch.topk\<close> that takes the smaller
  index first among equal scores, and worlds before and after the first run.
  \<open>torch_cosine\<close> is the formula of the PyTorch documentation,
  \<open>x \<cdot> y / (max(\<parallel>x\<parallel>, eps) * max(\<parallel>y\<parallel>, eps))\<close>.
\<close>

definition dot :: "real list \<Rightarrow> real list \<Rightarrow> real" where
  "dot x y = sum_list (map2 (*) x y)"

definition torch_cosine :: "real list \<Rightarrow> real list \<Rightarrow> real" where
  "torch_cosine x y =
     dot x y / (max (sqrt (dot x x)) (1 / 10 ^ 8) * max (sqrt (dot y y)) (1 / 10 ^ 8))"

definition example_content :: "string list" where
  "example_content =
     [''Paris'' @ [CHR 0x0A], ''sky'' @ [CHR 0x0A], ''water'' @ [CHR 0x0A], ''fog'' @ [CHR 0x0A]]"

definition example_vault :: string where
  "example_vault = concat example_content"

definition example_embeddings :: "string \<Rightarrow> string \<Rightarrow> (string \<rightharpoonup> real list)" where
  "example_embeddings model prompt =
     (if prompt = ''Paris'' @ [CHR 0x0A] then [''embedding'' \<mapsto> [1, 0]]
      else if prompt = ''sky'' @ [CHR 0x0A] then [''embedding'' \<mapsto> [- 1, 0]]
      else if prompt = ''water'' @ [CHR 0x0A] then [''embedding'' \<mapsto> [0, 1]]
      else if prompt = ''capital?'' then [''embedding'' \<mapsto> [1, 0]]
      else Map.empty)"

definition example_chat ::
  "string \<Rightarrow> message list \<Rightarrow> error + (string \<rightharpoonup> (string \<rightharpoonup> string))" where
  "example_chat model messages =
     (if model = ''llama3.2:latest'' then Inr [''message'' \<mapsto> [''content'' \<mapsto> ''Paris.'']]
      else Inr Map.empty)"

definition example_env :: env where
  "example_env =
     \<lparr>hashlib_md5 = (\<lambda>bytes. of_nat (length bytes)),
      ollama_embeddings = example_embeddings,
      ollama_chat_service = example_chat,
      cosine = torch_cosine,
      topk_tie = (\<lambda>scores k i. i)\<rparr>"

text \<open>The same with an Ollama server that does not answer chat requests.\<close>

definition offline_env :: env where
  "offline_env = example_env\<lparr>ollama_chat_service := (\<lambda>model messages. Inl ConnectionError)\<rparr>"

definition example_tensor :: tensor where
  "example_tensor = [[1, 0], [- 1, 0], [0, 1]]"

definition example_checksum :: string where
  "example_checksum = hexdigest (hashlib_md5 example_env example_vault)"

definition cold_world :: world where
  "cold_world =
     \<lparr>vault_file = Some example_vault, checksum_file = None, embeddings_file = None,
      writes = [], embed_calls = [], chat_calls = []\<rparr>"

definition warm_world :: world where
  "warm_world =
     cold_world\<lparr>checksum_file := Some example_checksum, embeddings_file := Some example_tensor\<rparr>"

definition example_app :: app where
  "example_app =
     \<lparr>app_vault_content = example_content, app_vault_embeddings_tensor = example_tensor,
      app_current_checksum = example_checksum, app_conversation_history = [],
      app_system_message = ''Be brief.''\<rparr>"

text \<open>
  The validity of a cache record in the words of the specification: the stored fingerprint
  equals the freshly computed fingerprint of the current corpus file and the stored embedding
  matrix is present and non-empty. It is compared with what the function does.
\<close>

definition CacheRecord_valid :: "env \<Rightarrow> world \<Rightarrow> bool" where
  "CacheRecord_valid e w =
     (compute_md5 e w = Inr (saved_checksum w)
      \<and> (case embeddings_file w of None \<Rightarrow> False | Some t \<Rightarrow> t \<noteq> []))"

text \<open>
  Two more worlds: one whose cache holds a tensor without rows under the right checksum, one
  whose checksum file is right and whose embeddings file is gone.
\<close>

definition empty_cache_world :: world where
  "empty_cache_world =
     cold_world\<lparr>checksum_file := Some example_checksum, embeddings_file := Some []\<rparr>"

definition lost_embeddings_world :: world where
  "lost_embeddings_world = cold_world\<lparr>checksum_file := Some example_checksum\<rparr>"

section \<open>Auxiliary facts\<close>

lemma update_chunks_append: "update_chunks hasher rest = hasher @ rest"
proof (induction hasher rest rule: update_chunks.induct)
  case (1 hasher rest)
  show ?case
  proof (cases "take 4096 rest = []")
    case True
    then have "rest = []" by simp
    then show ?thesis by (subst update_chunks.simps) simp
  next
    case False
    then have "update_chunks hasher rest = update_chunks (hasher @ take 4096 rest) (drop 4096 rest)"
      by (subst update_chunks.simps) (simp add: Let_def)
    also have "\<dots> = (hasher @ take 4096 rest) @ drop 4096 rest"
      using "1.IH" [OF refl False] .
    finally show ?thesis by simp
  qed
qed

lemma isspace_hexchar: "n < 16 \<Longrightarrow> \<not> isspace (hexchar n)"
  by (simp add: isspace_def hexchar_def Let_def)

lemma length_hexdigest: "length (hexdigest d) = 32"
  by (simp add: hexdigest_def)

lemma hexdigest_no_space: "c \<in> set (hexdigest d) \<Longrightarrow> \<not> isspace c"
  by (auto simp: hexdigest_def isspace_hexchar)

lemma strip_no_space:
  assumes "s \<noteq> []" "\<not> isspace (hd s)" "\<not> isspace (last s)"
  shows "strip s = s"
proof -
  have a: "dropWhile isspace s = s" using assms by (cases s) auto
  have b: "dropWhile isspace (rev s) = rev s" using assms by (cases "rev s") (auto simp: last_rev hd_rev)
  show ?thesis by (simp add: strip_def a b)
qed

lemma hexdigest_nonempty: "hexdigest d \<noteq> []"
  using length_hexdigest [of d] by auto

lemma strip_hexdigest: "strip (hexdigest d) = hexdigest d"
proof (rule strip_no_space)
  show "hexdigest d \<noteq> []" by (rule hexdigest_nonempty)
  show "\<not> isspace (hd (hexdigest d))"
    by (rule hexdigest_no_space [of _ d]) (simp add: hexdigest_nonempty)
  show "\<not> isspace (last (hexdigest d))"
    by (rule hexdigest_no_space [of _ d]) (simp add: hexdigest_nonempty)
qed


lemma generate_fst:
  "fst (generate e vc acc w) =
     acc @ List.map_filter (\<lambda>c. ollama_embeddings e ''mxbai-embed-large:latest'' c ''embedding'') vc"
  by (induction vc arbitrary: acc w)
     (auto simp: call_embeddings_def List.map_filter_simps split: option.splits)

lemma generate_snd:
  "snd (generate e vc acc w) =
     w\<lparr>embed_calls := embed_calls w @ map (Pair ''mxbai-embed-large:latest'') vc\<rparr>"
  by (induction vc arbitrary: acc w)
     (auto simp: call_embeddings_def split: option.splits)


lemma context_of_map:
  "\<forall>i \<in> set idxs. i < length vc \<Longrightarrow>
     context_of vc idxs = Inr (map (\<lambda>i. strip (vc ! i)) idxs)"
  by (induction idxs) auto

lemma cosine_similarity_length:
  "cosine_similarity e q t = Inr scores \<Longrightarrow> length scores = length t"
  by (induction t arbitrary: scores) (auto split: option.splits sum.splits)

lemma topk_ok:
  "0 \<le> k \<Longrightarrow> k \<le> int (length scores) \<Longrightarrow>
     topk e scores k = Inr (take (nat k) (ranking (topk_tie e scores (nat k)) scores))"
  by (simp add: topk_def)

lemma length_ranking: "length (ranking tie scores) = length scores"
  by (simp add: ranking_def)

lemma set_ranking: "set (ranking tie scores) = {0..<length scores}"
  by (simp add: ranking_def)

lemma distinct_ranking: "distinct (ranking tie scores)"
  by (simp add: ranking_def)

lemma sorted_ranking: "sorted (map (\<lambda>i. (- (scores ! i), tie i)) (ranking tie scores))"
  by (simp add: ranking_def)

lemma ranking_descending:
  assumes "i \<le> j" "j < length scores"
  shows "scores ! (ranking tie scores ! j) \<le> scores ! (ranking tie scores ! i)"
proof -
  let ?key = "\<lambda>i. (- (scores ! i), tie i)"
  have "map ?key (ranking tie scores) ! i \<le> map ?key (ranking tie scores) ! j"
    using assms by (intro sorted_nth_mono [OF sorted_ranking]) (simp_all add: length_ranking)
  then have "?key (ranking tie scores ! i) \<le> ?key (ranking tie scores ! j)"
    using assms by (simp add: length_ranking)
  then show ?thesis by auto
qed

lemma ranking_strict:
  assumes "distinct scores" "i < j" "j < length scores"
  shows "scores ! (ranking tie scores ! j) < scores ! (ranking tie scores ! i)"
proof -
  let ?r = "ranking tie scores"
  have le: "scores ! (?r ! j) \<le> scores ! (?r ! i)"
    using assms by (intro ranking_descending) simp_all
  have ne: "?r ! i \<noteq> ?r ! j"
    using assms distinct_ranking [of tie scores] by (simp add: nth_eq_iff_index_eq length_ranking)
  have ri: "?r ! i < length scores" and rj: "?r ! j < length scores"
    using assms set_ranking [of tie scores] nth_mem [of i ?r] nth_mem [of j ?r]
    by (simp_all add: length_ranking)
  have "scores ! (?r ! i) \<noteq> scores ! (?r ! j)"
    using assms(1) ne ri rj by (simp add: nth_eq_iff_index_eq)
  with le show ?thesis by simp
qed

lemma ranking_rest_below:
  assumes "i < k" "k \<le> length scores" "m < length scores"
    "m \<notin> set (take k (ranking tie scores))"
  shows "scores ! m \<le> scores ! (ranking tie scores ! i)"
proof -
  let ?r = "ranking tie scores"
  have "m \<in> set ?r" using assms(3) by (simp add: set_ranking)
  then obtain j where j: "j < length ?r" "?r ! j = m" by (auto simp: in_set_conv_nth)
  have "k \<le> j"
  proof (rule ccontr)
    assume "\<not> k \<le> j"
    then have "?r ! j \<in> set (take k ?r)" using j by (auto simp: in_set_conv_nth intro!: exI [of _ j])
    with assms(4) j show False by simp
  qed
  then have "scores ! (?r ! j) \<le> scores ! (?r ! i)"
    using assms j by (intro ranking_descending) (simp_all add: length_ranking)
  with j show ?thesis by simp
qed

text \<open>With pairwise distinct scores the ranks among equals play no part.\<close>

lemma ranking_distinct_scores:
  assumes "distinct scores"
  shows "ranking tie scores = descending_order scores"
proof -
  let ?key = "\<lambda>i. - (scores ! i)"
  let ?a = "ranking tie scores" and ?b = "descending_order scores"
  have inj: "inj_on ?key {0..<length scores}"
    using assms by (auto simp: inj_on_def nth_eq_iff_index_eq)
  have sa: "set ?a = {0..<length scores}" and sb: "set ?b = {0..<length scores}"
    by (simp_all add: set_ranking descending_order_def)
  have "sorted_wrt (\<lambda>i j. (?key i, tie i) \<le> (?key j, tie j)) ?a"
    using sorted_ranking [of scores tie] by (simp add: sorted_map)
  then have "sorted_wrt (\<lambda>i j. ?key i \<le> ?key j) ?a"
    by (rule sorted_wrt_mono_rel [rotated]) auto
  then have 1: "sorted (map ?key ?a)"
    by (simp add: sorted_map)
  have 2: "sorted (map ?key ?b)"
    by (simp add: descending_order_def)
  have 3: "distinct (map ?key ?a)" and 4: "distinct (map ?key ?b)"
    using inj by (simp_all add: distinct_map sa sb distinct_ranking descending_order_def)
  have 5: "set (map ?key ?a) = set (map ?key ?b)"
    by (simp add: sa sb)
  have "map ?key ?a = map ?key ?b"
    using 1 3 2 4 5 by (rule sorted_distinct_set_unique)
  moreover have "inj_on ?key (set ?a \<union> set ?b)"
    using inj by (simp add: sa sb)
  ultimately show ?thesis
    by (simp add: inj_on_map_eq_map)
qed

text \<open>
  Other ranks among equals give other answers on ties: for the scores \<open>0, 1, 1, 0, 1\<close> and
  \<open>k = 2\<close> the answer is the indices 1, 2 under one choice and 2, 4 under another.
\<close>

lemma ranking_tie_orders:
  "take 2 (ranking (\<lambda>i. i) [0, 1, 1, 0, 1]) = [1, 2]"
  "take 2 (ranking (\<lambda>i. if i = 2 then 0 else if i = 4 then 1 else 2 + i) [0, 1, 1, 0, 1]) = [2, 4]"
  by (simp_all add: ranking_def upt_rec)

lemma compute_md5_Some:
  "vault_file w = Some bytes \<Longrightarrow> compute_md5 e w = Inr (hexdigest (hashlib_md5 e bytes))"
  by (simp add: compute_md5_def update_chunks_append)

lemma compute_md5_None: "vault_file w = None \<Longrightarrow> compute_md5 e w = Inl FileNotFoundError"
  by (simp add: compute_md5_def)

lemma torch_tensor_same_length:
  assumes "\<forall>r \<in> set rows. length r = d"
  shows "torch_tensor rows = Inr rows"
proof (cases rows)
  case Nil
  then show ?thesis by (simp add: torch_tensor_def)
next
  case (Cons r rs)
  show ?thesis
  proof (cases "r = []")
    case True
    then have "\<forall>x \<in> set rows. x = []"
      using assms Cons by auto
    then have "map (\<lambda>x. []) rows = rows"
      by (induction rows) auto
    then show ?thesis
      using Cons True by (simp add: torch_tensor_def)
  next
    case False
    then show ?thesis
      using assms Cons by (simp add: torch_tensor_def list_all_iff)
  qed
qed

lemma generate_tensor_eq:
  "generate_tensor e vc w =
     (torch_tensor (List.map_filter (\<lambda>c. ollama_embeddings e ''mxbai-embed-large:latest'' c ''embedding'') vc),
      w\<lparr>embed_calls := embed_calls w @ map (Pair ''mxbai-embed-large:latest'') vc\<rparr>)"
  using generate_fst [of e vc "[]" w] generate_snd [of e vc "[]" w]
  by (simp add: generate_tensor_def split_beta prod_eq_iff)

lemma get_relevant_context_ranked:
  assumes ne: "nelement t \<noteq> 0"
    and qv: "ollama_embeddings e ''mxbai-embed-large'' q ''embedding'' = Some qv"
    and sc: "cosine_similarity e qv t = Inr scores"
    and k: "0 \<le> k"
    and len: "length t \<le> length vc"
  shows "fst (get_relevant_context e q t vc k w)
           = Inr (map (\<lambda>i. strip (vc ! i))
                   (take (nat k)
                      (ranking (topk_tie e scores (nat (min k (int (length t))))) scores)))"
proof -
  have n: "length scores = length t"
    using sc by (rule cosine_similarity_length)
  let ?k = "min k (int (length scores))"
  let ?r = "ranking (topk_tie e scores (nat ?k)) scores"
  have tk: "topk e scores ?k = Inr (take (nat ?k) ?r)"
    using k by (intro topk_ok) simp_all
  have same: "take (nat ?k) ?r = take (nat k) ?r"
    by (cases "k \<le> int (length scores)") (simp_all add: min_def length_ranking)
  have "\<forall>i \<in> set (take (nat k) ?r). i < length vc"
  proof
    fix i assume "i \<in> set (take (nat k) ?r)"
    then have "i \<in> set ?r" by (rule in_set_takeD)
    then show "i < length vc" using n len by (simp add: set_ranking)
  qed
  then have ctx: "context_of vc (take (nat k) ?r) = Inr (map (\<lambda>i. strip (vc ! i)) (take (nat k) ?r))"
    by (rule context_of_map)
  show ?thesis
    using ne qv sc tk same ctx
    by (simp add: get_relevant_context_def call_embeddings_def n)
qed

text \<open>The small vault, evaluated.\<close>

lemma example_rows:
  "List.map_filter (\<lambda>c. ollama_embeddings example_env ''mxbai-embed-large:latest'' c ''embedding'')
     example_content = example_tensor"
  by (simp add: List.map_filter_simps example_env_def example_embeddings_def example_content_def
      example_tensor_def)

lemma example_scores:
  "cosine_similarity example_env [1, 0] example_tensor = Inr [1, - 1, 0]"
  by (simp add: example_tensor_def example_env_def broadcast_dim_def expand_def torch_cosine_def
      dot_def)

lemma example_query:
  "ollama_embeddings example_env ''mxbai-embed-large'' ''capital?'' ''embedding'' = Some [1, 0]"
  by (simp add: example_env_def example_embeddings_def)

lemma example_ranking: "ranking (\<lambda>i. i) [1, - 1, 0] = [0, 2, 1]"
  by (simp add: ranking_def upt_rec)

lemma example_tie: "topk_tie example_env scores k = (\<lambda>i. i)"
  by (simp add: example_env_def)

lemma regenerate_touches_world:
  "writes (snd (regenerate e vc c w)) \<noteq> writes w
     \<or> embed_calls (snd (regenerate e vc c w)) \<noteq> embed_calls w"
proof (cases "torch_tensor (List.map_filter
    (\<lambda>c. ollama_embeddings e ''mxbai-embed-large:latest'' c ''embedding'') vc)")
  case (Inl err)
  then have "vc \<noteq> []"
    by (auto simp: torch_tensor_def List.map_filter_simps)
  with Inl show ?thesis
    by (simp add: regenerate_def generate_tensor_eq)
next
  case (Inr t)
  then show ?thesis
    by (simp add: regenerate_def generate_tensor_eq torch_save_def write_checksum_def)
qed

lemma load_hit:
  "vault_file w = Some bytes \<Longrightarrow> saved_checksum w = hexdigest (hashlib_md5 e bytes) \<Longrightarrow>
     embeddings_file w = Some saved \<Longrightarrow>
     load_or_generate_embeddings e vc w = (Inr (saved, hexdigest (hashlib_md5 e bytes)), w)"
  by (simp add: load_or_generate_embeddings_def compute_md5_Some)

lemma load_miss:
  "vault_file w = Some bytes \<Longrightarrow>
     saved_checksum w \<noteq> hexdigest (hashlib_md5 e bytes) \<or> embeddings_file w = None \<Longrightarrow>
     load_or_generate_embeddings e vc w = regenerate e vc (hexdigest (hashlib_md5 e bytes)) w"
  by (auto simp: load_or_generate_embeddings_def compute_md5_Some)

lemma example_generate:
  "generate_tensor example_env example_content w
     = (Inr example_tensor,
        w\<lparr>embed_calls := embed_calls w @ map (Pair ''mxbai-embed-large:latest'') example_content\<rparr>)"
proof -
  have "torch_tensor example_tensor = Inr example_tensor"
    by (rule torch_tensor_same_length [where d = 2]) (simp add: example_tensor_def)
  then show ?thesis
    by (simp add: generate_tensor_eq example_rows)
qed

lemma example_descending: "descending_order [1, - 1, 0] = [0, 2, 1]"
  by (simp add: descending_order_def upt_rec)

lemma example_context:
  "get_relevant_context example_env ''capital?'' example_tensor example_content 3 w
     = (Inr [''Paris'', ''water'', ''sky''],
        w\<lparr>embed_calls := embed_calls w @ [(''mxbai-embed-large'', ''capital?'')]\<rparr>)"
proof -
  have "nelement example_tensor \<noteq> 0"
    by (simp add: nelement_def example_tensor_def)
  then show ?thesis
    using example_query example_scores
    by (simp add: get_relevant_context_def call_embeddings_def topk_def example_tie
        example_ranking example_content_def strip_def isspace_def)
qed

lemma offline_context:
  "get_relevant_context offline_env ''capital?'' example_tensor example_content 3 w
     = get_relevant_context example_env ''capital?'' example_tensor example_content 3 w"
proof -
  have c: "cosine offline_env = cosine example_env"
    and m: "ollama_embeddings offline_env = ollama_embeddings example_env"
    and k: "topk offline_env = topk example_env"
    by (simp_all add: offline_env_def topk_def fun_eq_iff)
  have s: "cosine_similarity offline_env q t = cosine_similarity example_env q t" for q t
    by (induction t) (simp_all add: c split: option.splits sum.splits)
  show ?thesis
    unfolding get_relevant_context_def call_embeddings_def s m k ..
qed

section \<open>Properties of the programs\<close>

text \<open>
  C1. Cache hit. When the vault file exists, the checksum file holds (up to surrounding
  whitespace, which the program strips) the digest just computed for the vault, and the
  embeddings file exists, \<^verbatim>\<open>load_or_generate_embeddings\<close> returns the persisted tensor with
  the current digest and leaves the world as it was: no file is written and the embedding
  service is not called.
\<close>

theorem cache_hit_returns_persisted:
  assumes "vault_file w = Some bytes"
    and "checksum_file w = Some stored"
    and "strip stored = hexdigest (hashlib_md5 e bytes)"
    and "embeddings_file w = Some persisted"
  shows "load_or_generate_embeddings e vault_content w
           = (Inr (persisted, hexdigest (hashlib_md5 e bytes)), w)"
  using assms by (simp add: load_or_generate_embeddings_def compute_md5_Some saved_checksum_def)

theorem cache_hit_returns_persisted_witness:
  "load_or_generate_embeddings example_env example_content warm_world
     = (Inr (example_tensor, example_checksum), warm_world)"
proof -
  have "vault_file warm_world = Some example_vault"
    and "checksum_file warm_world = Some example_checksum"
    and "embeddings_file warm_world = Some example_tensor"
    by (simp_all add: warm_world_def cold_world_def)
  moreover have "strip example_checksum = hexdigest (hashlib_md5 example_env example_vault)"
    by (simp add: example_checksum_def strip_hexdigest)
  ultimately show ?thesis
    using cache_hit_returns_persisted [of warm_world example_vault example_checksum example_env
        example_tensor example_content]
    by (simp add: example_checksum_def)
qed



text \<open>
  C3. Top-k ordering. For a tensor with at least one element, a query for which the
  service returns a vector \<open>qv\<close>, similarities \<open>scores\<close> computed for \<open>qv\<close> and the rows,
  \<open>k \<ge> 0\<close> and a vault content with at least as many entries as rows,
  \<^verbatim>\<open>get_relevant_context\<close> returns the stripped vault entries at the indices \<open>idxs\<close>, where
  \<open>idxs\<close> has \<open>min k n\<close> distinct row indices, runs by falling score, and leaves out no
  row that scores higher than a row it holds. When the scores are pairwise distinct,
  \<open>idxs\<close> is the first \<open>k\<close> indices of the order by falling score, strictly falling,
  whatever \<^verbatim>\<open>torch.topk\<close> does on ties. On ties the choice and the order are those of
  \<^verbatim>\<open>torch.topk\<close>, and the program adds nothing of its own: any call with the same query
  vector, the same similarities and the same \<open>k\<close>, under the same treatment of ties by
  the library, returns the same list, whatever the world it runs in.
\<close>

theorem top_k_ordering:
  assumes "nelement t \<noteq> 0"
    and "ollama_embeddings e ''mxbai-embed-large'' q ''embedding'' = Some qv"
    and "cosine_similarity e qv t = Inr scores"
    and "0 \<le> k"
    and "length t \<le> length vc"
  shows "\<exists>idxs. fst (get_relevant_context e q t vc k w) = Inr (map (\<lambda>i. strip (vc ! i)) idxs)
           \<and> length idxs = min (nat k) (length t)
           \<and> distinct idxs \<and> set idxs \<subseteq> {0..<length t}
           \<and> (\<forall>i j. i \<le> j \<and> j < length idxs \<longrightarrow> scores ! (idxs ! j) \<le> scores ! (idxs ! i))
           \<and> (\<forall>m i. m < length t \<and> m \<notin> set idxs \<and> i < length idxs
                  \<longrightarrow> scores ! m \<le> scores ! (idxs ! i))
           \<and> (distinct scores \<longrightarrow>
                idxs = take (nat k) (descending_order scores)
                \<and> (\<forall>i j. i < j \<and> j < length idxs \<longrightarrow> scores ! (idxs ! j) < scores ! (idxs ! i)))
           \<and> (\<forall>e' w'. ollama_embeddings e' ''mxbai-embed-large'' q ''embedding'' = Some qv
                    \<and> cosine_similarity e' qv t = Inr scores
                    \<and> topk_tie e' = topk_tie e
                  \<longrightarrow> fst (get_relevant_context e' q t vc k w')
                       = fst (get_relevant_context e q t vc k w))"
proof -
  let ?tie = "topk_tie e scores (nat (min k (int (length t))))"
  let ?idxs = "take (nat k) (ranking ?tie scores)"
  have n: "length scores = length t"
    using assms(3) by (rule cosine_similarity_length)
  have l: "length ?idxs = min (nat k) (length t)"
    by (simp add: length_ranking n min.commute)
  have nth: "?idxs ! i = ranking ?tie scores ! i" if "i < length ?idxs" for i
    using that by simp
  have bound: "i < length scores" if "i < length ?idxs" for i
    using that by (simp add: length_ranking)
  have a: "fst (get_relevant_context e q t vc k w) = Inr (map (\<lambda>i. strip (vc ! i)) ?idxs)"
    using assms by (rule get_relevant_context_ranked)
  have b: "distinct ?idxs"
    by (rule distinct_take) (rule distinct_ranking)
  have c: "set ?idxs \<subseteq> {0..<length t}"
    using set_take_subset [of "nat k" "ranking ?tie scores"] by (simp add: set_ranking n)
  have d: "scores ! (?idxs ! j) \<le> scores ! (?idxs ! i)" if "i \<le> j" "j < length ?idxs" for i j
  proof -
    have "i < length ?idxs" using that by simp
    then show ?thesis
      using that ranking_descending [of i j scores ?tie] bound [of j] nth [of i] nth [of j]
      by simp
  qed
  have f: "scores ! m \<le> scores ! (?idxs ! i)"
    if "m < length t" "m \<notin> set ?idxs" "i < length ?idxs" for m i
  proof -
    let ?k = "min (nat k) (length scores)"
    have eq: "take ?k (ranking ?tie scores) = ?idxs"
      by (simp add: min_def length_ranking)
    have "scores ! m \<le> scores ! (ranking ?tie scores ! i)"
    proof (rule ranking_rest_below [where k = ?k])
      show "i < ?k" using that(3) by (simp add: length_ranking)
      show "?k \<le> length scores" by simp
      show "m < length scores" using that(1) n by simp
      show "m \<notin> set (take ?k (ranking ?tie scores))" using that(2) eq by simp
    qed
    then show ?thesis using nth [OF that(3)] by simp
  qed
  have g: "scores ! (?idxs ! j) < scores ! (?idxs ! i)"
    if "distinct scores" "i < j" "j < length ?idxs" for i j
  proof -
    have "i < length ?idxs" using that by simp
    then show ?thesis
      using that ranking_strict [of scores i j ?tie] bound [of j] nth [of i] nth [of j] by simp
  qed
  have h: "?idxs = take (nat k) (descending_order scores)" if "distinct scores"
    using that by (simp add: ranking_distinct_scores)
  have r: "fst (get_relevant_context e' q t vc k w') = fst (get_relevant_context e q t vc k w)"
    if "ollama_embeddings e' ''mxbai-embed-large'' q ''embedding'' = Some qv
          \<and> cosine_similarity e' qv t = Inr scores \<and> topk_tie e' = topk_tie e" for e' w'
  proof -
    from that have q': "ollama_embeddings e' ''mxbai-embed-large'' q ''embedding'' = Some qv"
      and s': "cosine_similarity e' qv t = Inr scores"
      and t': "topk_tie e' = topk_tie e"
      by simp_all
    have "fst (get_relevant_context e' q t vc k w')
            = Inr (map (\<lambda>i. strip (vc ! i))
                    (take (nat k)
                       (ranking (topk_tie e' scores (nat (min k (int (length t))))) scores)))"
      using assms(1) q' s' assms(4,5) by (rule get_relevant_context_ranked)
    then show ?thesis using a t' by simp
  qed
  have dd: "\<forall>i j. i \<le> j \<and> j < length ?idxs \<longrightarrow> scores ! (?idxs ! j) \<le> scores ! (?idxs ! i)"
    using d by blast
  have ff: "\<forall>m i. m < length t \<and> m \<notin> set ?idxs \<and> i < length ?idxs
              \<longrightarrow> scores ! m \<le> scores ! (?idxs ! i)"
    using f by blast
  have gg: "distinct scores \<longrightarrow>
              ?idxs = take (nat k) (descending_order scores)
              \<and> (\<forall>i j. i < j \<and> j < length ?idxs \<longrightarrow> scores ! (?idxs ! j) < scores ! (?idxs ! i))"
  proof (intro impI conjI allI)
    assume ds: "distinct scores"
    show "?idxs = take (nat k) (descending_order scores)"
      using ds by (rule h)
    fix i j assume "i < j \<and> j < length ?idxs"
    then show "scores ! (?idxs ! j) < scores ! (?idxs ! i)"
      using g [OF ds, of i j] by simp
  qed
  have rr: "\<forall>e' w'. ollama_embeddings e' ''mxbai-embed-large'' q ''embedding'' = Some qv
                \<and> cosine_similarity e' qv t = Inr scores
                \<and> topk_tie e' = topk_tie e
              \<longrightarrow> fst (get_relevant_context e' q t vc k w')
                   = fst (get_relevant_context e q t vc k w)"
    using r by blast
  show ?thesis
    by (rule exI [of _ ?idxs]) (intro conjI a l b c dd ff gg rr)
qed

theorem top_k_ordering_witness:
  "fst (get_relevant_context example_env ''capital?'' example_tensor example_content 2 warm_world)
     = Inr [''Paris'', ''water'']"
proof -
  have ne: "nelement example_tensor \<noteq> 0"
    by (simp add: nelement_def example_tensor_def)
  have k: "(0::int) \<le> 2" by simp
  have len: "length example_tensor \<le> length example_content"
    by (simp add: example_tensor_def example_content_def)
  have d: "distinct [1, - 1, 0 :: real]"
    by simp
  have s: "map (\<lambda>i. strip (example_content ! i)) [0, 2] = [''Paris'', ''water'']"
    by (simp add: example_content_def strip_def isspace_def)
  from top_k_ordering [OF ne example_query example_scores k len, of warm_world]
  obtain idxs where
    r: "fst (get_relevant_context example_env ''capital?'' example_tensor example_content 2
               warm_world)
          = Inr (map (\<lambda>i. strip (example_content ! i)) idxs)"
    and o: "distinct [1, - 1, 0 :: real] \<longrightarrow>
              idxs = take (nat 2) (descending_order [1, - 1, 0])
              \<and> (\<forall>i j. i < j \<and> j < length idxs \<longrightarrow> [1, - 1, 0 :: real] ! (idxs ! j) < [1, - 1, 0] ! (idxs ! i))"
    by (elim exE conjE) (rule that)
  from o d have "idxs = take (nat 2) (descending_order [1, - 1, 0])"
    by (elim impE conjE)
  then show ?thesis
    using r s by (simp add: example_descending)
qed

text \<open>
  C4. Clamping of \<open>k\<close>. Under the conditions of C3 the result has \<open>min k n\<close> entries
  for a tensor of \<open>n\<close> rows; when \<open>k > n\<close> no error is raised and the result holds
  every row exactly once, by falling score.
\<close>

theorem k_clamping:
  assumes "nelement t \<noteq> 0"
    and "ollama_embeddings e ''mxbai-embed-large'' q ''embedding'' = Some qv"
    and "cosine_similarity e qv t = Inr scores"
    and "0 \<le> k"
    and "length t \<le> length vc"
  shows "\<exists>idxs. fst (get_relevant_context e q t vc k w) = Inr (map (\<lambda>i. strip (vc ! i)) idxs)
           \<and> length idxs = min (nat k) (length t)
           \<and> (int (length t) < k \<longrightarrow>
                length idxs = length t \<and> distinct idxs \<and> set idxs = {0..<length t}
                \<and> (\<forall>i j. i \<le> j \<and> j < length t \<longrightarrow> scores ! (idxs ! j) \<le> scores ! (idxs ! i)))"
proof -
  let ?tie = "topk_tie e scores (nat (min k (int (length t))))"
  let ?idxs = "take (nat k) (ranking ?tie scores)"
  have n: "length scores = length t"
    using assms(3) by (rule cosine_similarity_length)
  have a: "fst (get_relevant_context e q t vc k w) = Inr (map (\<lambda>i. strip (vc ! i)) ?idxs)"
    using assms by (rule get_relevant_context_ranked)
  have l: "length ?idxs = min (nat k) (length t)"
    by (simp add: length_ranking n min.commute)
  have all: "length ?idxs = length t \<and> distinct ?idxs \<and> set ?idxs = {0..<length t}
               \<and> (\<forall>i j. i \<le> j \<and> j < length t \<longrightarrow> scores ! (?idxs ! j) \<le> scores ! (?idxs ! i))"
    if "int (length t) < k"
  proof -
    have whole: "?idxs = ranking ?tie scores"
      using that n by (simp add: length_ranking)
    show ?thesis
      unfolding whole
      using ranking_descending [of _ _ scores ?tie]
      by (simp add: length_ranking set_ranking distinct_ranking n)
  qed
  show ?thesis
    using a l all by (intro exI [of _ ?idxs]) blast
qed

theorem k_clamping_witness:
  "\<exists>idxs. fst (get_relevant_context example_env ''capital?'' example_tensor example_content 7
                 warm_world)
            = Inr (map (\<lambda>i. strip (example_content ! i)) idxs)
         \<and> length idxs = 3 \<and> distinct idxs \<and> set idxs = {0..<3}
         \<and> (\<forall>i j. i \<le> j \<and> j < 3 \<longrightarrow> [1, - 1, 0 :: real] ! (idxs ! j) \<le> [1, - 1, 0] ! (idxs ! i))"
proof -
  have ne: "nelement example_tensor \<noteq> 0"
    by (simp add: nelement_def example_tensor_def)
  have k: "(0::int) \<le> 7" by simp
  have len: "length example_tensor \<le> length example_content"
    by (simp add: example_tensor_def example_content_def)
  have n: "length example_tensor = 3"
    by (simp add: example_tensor_def)
  show ?thesis
    using k_clamping [OF ne example_query example_scores k len, of warm_world]
    by (simp add: n)
qed

text \<open>
  C5. Empty matrix. On a tensor with zero elements \<^verbatim>\<open>get_relevant_context\<close> returns the
  empty list for every query and every \<open>top_k\<close>, raises nothing and leaves the world as it
  was, so the embedding service is not called.
\<close>

theorem empty_matrix_gives_empty_context:
  "nelement vault_embeddings = 0 \<Longrightarrow>
     get_relevant_context e rewritten_input vault_embeddings vault_content top_k w = (Inr [], w)"
  by (simp add: get_relevant_context_def)

theorem empty_matrix_gives_empty_context_witness:
  "nelement [] = 0
   \<and> get_relevant_context example_env ''capital?'' [] example_content 0 cold_world = (Inr [], cold_world)"
proof -
  have h: "nelement [] = 0" by (simp add: nelement_def)
  show ?thesis using h empty_matrix_gives_empty_context [OF h] by simp
qed

text \<open>
  C6. Missing vault. The statements run at module start keep the empty list as vault
  content when the vault file is missing, and then call \<^verbatim>\<open>load_or_generate_embeddings\<close>,
  whose \<^verbatim>\<open>compute_md5(VAULT_FILE)\<close> opens the missing file: the start-up raises
  \<^verbatim>\<open>FileNotFoundError\<close> instead of going on with an empty vault.
\<close>

theorem startup_without_vault_raises:
  "startup e sysmsg (w\<lparr>vault_file := None\<rparr>) = (Inl FileNotFoundError, w\<lparr>vault_file := None\<rparr>)"
  by (simp add: startup_def load_or_generate_embeddings_def compute_md5_None)

text \<open>
  C7. Cache-validity condition, as the code has it. With the vault file present,
  \<^verbatim>\<open>load_or_generate_embeddings\<close> takes the fast path (it writes no file and calls the
  embedding service for no entry) exactly when the stripped content of the checksum file
  equals the digest of the vault and the embeddings file exists; it then returns whatever
  tensor that file holds, a tensor without rows included.
\<close>

theorem cache_reuse_condition:
  assumes v: "vault_file w = Some bytes"
  shows "((saved_checksum w = hexdigest (hashlib_md5 e bytes) \<and> embeddings_file w \<noteq> None)
            \<longleftrightarrow> (writes (snd (load_or_generate_embeddings e vc w)) = writes w
                 \<and> embed_calls (snd (load_or_generate_embeddings e vc w)) = embed_calls w))
       \<and> (\<forall>saved. saved_checksum w = hexdigest (hashlib_md5 e bytes) \<and> embeddings_file w = Some saved
            \<longrightarrow> load_or_generate_embeddings e vc w
                  = (Inr (saved, hexdigest (hashlib_md5 e bytes)), w))"
proof -
  let ?c = "hexdigest (hashlib_md5 e bytes)"
  let ?R = "load_or_generate_embeddings e vc w"
  have hit: "?R = (Inr (saved, ?c), w)"
    if "saved_checksum w = ?c \<and> embeddings_file w = Some saved" for saved
    using that load_hit [OF v] by blast
  have quiet: "writes (snd ?R) = writes w \<and> embed_calls (snd ?R) = embed_calls w"
    if "saved_checksum w = ?c \<and> embeddings_file w \<noteq> None"
  proof -
    from that obtain saved where "saved_checksum w = ?c \<and> embeddings_file w = Some saved"
      by auto
    then show ?thesis using hit by simp
  qed
  have loud: "saved_checksum w = ?c \<and> embeddings_file w \<noteq> None"
    if same: "writes (snd ?R) = writes w \<and> embed_calls (snd ?R) = embed_calls w"
  proof (rule ccontr)
    assume "\<not> ?thesis"
    then have "saved_checksum w \<noteq> ?c \<or> embeddings_file w = None"
      by simp
    then have "?R = regenerate e vc ?c w"
      by (rule load_miss [OF v])
    with same regenerate_touches_world [of e vc ?c w]
    show False by simp
  qed
  show ?thesis
    using hit quiet loud by blast
qed

theorem cache_reuse_condition_witness:
  "load_or_generate_embeddings example_env example_content warm_world
     = (Inr (example_tensor, example_checksum), warm_world)
   \<and> \<not> (writes (snd (load_or_generate_embeddings example_env example_content cold_world))
            = writes cold_world
          \<and> embed_calls (snd (load_or_generate_embeddings example_env example_content cold_world))
            = embed_calls cold_world)"
proof -
  have v1: "vault_file warm_world = Some example_vault"
    and v2: "vault_file cold_world = Some example_vault"
    by (simp_all add: warm_world_def cold_world_def)
  have s: "saved_checksum warm_world = hexdigest (hashlib_md5 example_env example_vault)"
    by (simp add: saved_checksum_def warm_world_def cold_world_def example_checksum_def
        strip_hexdigest)
  have f: "embeddings_file warm_world = Some example_tensor"
    by (simp add: warm_world_def)
  have n: "embeddings_file cold_world = None"
    by (simp add: cold_world_def)
  show ?thesis
    using cache_reuse_condition [OF v1, of example_env example_content]
      cache_reuse_condition [OF v2, of example_env example_content] s f n
    by (simp add: example_checksum_def)
qed

text \<open>
  The function does not look into the persisted tensor: a cache with the right checksum and a
  tensor of zero rows is not valid in the words of the specification, and is reused.
\<close>

theorem empty_cache_is_reused:
  "\<not> CacheRecord_valid example_env empty_cache_world
   \<and> load_or_generate_embeddings example_env example_content empty_cache_world
       = (Inr ([], example_checksum), empty_cache_world)"
proof -
  have v: "vault_file empty_cache_world = Some example_vault"
    by (simp add: empty_cache_world_def cold_world_def)
  have s: "saved_checksum empty_cache_world = hexdigest (hashlib_md5 example_env example_vault)"
    by (simp add: saved_checksum_def empty_cache_world_def cold_world_def example_checksum_def
        strip_hexdigest)
  have f: "embeddings_file empty_cache_world = Some []"
    by (simp add: empty_cache_world_def)
  show ?thesis
    using load_hit [OF v s f] f by (simp add: CacheRecord_valid_def example_checksum_def)
qed

text \<open>
  C8. Order of the two writes, and the state between them. On the regeneration path that
  reaches the writes, the embeddings file is written first and the checksum file second.
  Between the two writes the embeddings file holds the new tensor and the checksum file is the
  old one. If the old checksum differed from the digest of the vault (or was missing), the next
  run on that state, with the vault unchanged, regenerates. If the old checksum was already
  right and only the embeddings file was missing, the next run reuses the cache and returns
  the tensor just generated.
\<close>

theorem embeddings_written_before_checksum:
  assumes v: "vault_file w = Some bytes"
    and miss: "saved_checksum w \<noteq> hexdigest (hashlib_md5 e bytes) \<or> embeddings_file w = None"
    and ok: "generate_tensor e vc w = (Inr t, w1)"
  shows "load_or_generate_embeddings e vc w
           = (Inr (t, hexdigest (hashlib_md5 e bytes)),
              write_checksum (hexdigest (hashlib_md5 e bytes)) (torch_save t w1))
       \<and> writes (torch_save t w1) = writes w @ [EMBEDDINGS_FILE]
       \<and> writes (write_checksum (hexdigest (hashlib_md5 e bytes)) (torch_save t w1))
           = writes w @ [EMBEDDINGS_FILE, CHECKSUM_FILE]
       \<and> embeddings_file (torch_save t w1) = Some t
       \<and> checksum_file (torch_save t w1) = checksum_file w
       \<and> vault_file (torch_save t w1) = vault_file w
       \<and> (saved_checksum w \<noteq> hexdigest (hashlib_md5 e bytes) \<longrightarrow>
            (\<forall>vc'. load_or_generate_embeddings e vc' (torch_save t w1)
                     = regenerate e vc' (hexdigest (hashlib_md5 e bytes)) (torch_save t w1)))
       \<and> (saved_checksum w = hexdigest (hashlib_md5 e bytes) \<longrightarrow>
            (\<forall>vc'. load_or_generate_embeddings e vc' (torch_save t w1)
                     = (Inr (t, hexdigest (hashlib_md5 e bytes)), torch_save t w1)))"
proof -
  let ?c = "hexdigest (hashlib_md5 e bytes)"
  let ?wc = "torch_save t w1"
  have w1: "w1 = w\<lparr>embed_calls := embed_calls w @ map (Pair ''mxbai-embed-large:latest'') vc\<rparr>"
    using ok by (simp add: generate_tensor_eq)
  have a: "load_or_generate_embeddings e vc w = (Inr (t, ?c), write_checksum ?c ?wc)"
    using load_miss [OF v miss, of vc] ok by (simp add: regenerate_def)
  have b: "writes ?wc = writes w @ [EMBEDDINGS_FILE]"
    and c: "writes (write_checksum ?c ?wc) = writes w @ [EMBEDDINGS_FILE, CHECKSUM_FILE]"
    and d: "embeddings_file ?wc = Some t"
    and f: "checksum_file ?wc = checksum_file w"
    and g: "vault_file ?wc = vault_file w"
    by (simp_all add: w1 torch_save_def write_checksum_def)
  have sv: "saved_checksum ?wc = saved_checksum w"
    by (simp add: saved_checksum_def f)
  have vw: "vault_file ?wc = Some bytes"
    using g v by simp
  have h: "load_or_generate_embeddings e vc' ?wc = regenerate e vc' ?c ?wc"
    if "saved_checksum w \<noteq> ?c" for vc'
    using that by (intro load_miss [OF vw]) (simp add: sv)
  have i: "load_or_generate_embeddings e vc' ?wc = (Inr (t, ?c), ?wc)"
    if "saved_checksum w = ?c" for vc'
    using that by (intro load_hit [OF vw _ d]) (simp add: sv)
  show ?thesis
    using a b c d f g h i by blast
qed

theorem embeddings_written_before_checksum_witness:
  "writes (snd (load_or_generate_embeddings example_env example_content cold_world))
     = [EMBEDDINGS_FILE, CHECKSUM_FILE]
   \<and> (\<forall>vc'. load_or_generate_embeddings example_env vc'
               (torch_save example_tensor (snd (generate_tensor example_env example_content cold_world)))
          = regenerate example_env vc' example_checksum
               (torch_save example_tensor (snd (generate_tensor example_env example_content cold_world))))
   \<and> (\<forall>vc'. load_or_generate_embeddings example_env vc'
               (torch_save example_tensor
                  (snd (generate_tensor example_env example_content lost_embeddings_world)))
          = (Inr (example_tensor, example_checksum),
             torch_save example_tensor
               (snd (generate_tensor example_env example_content lost_embeddings_world))))"
proof -
  have v1: "vault_file cold_world = Some example_vault"
    and v2: "vault_file lost_embeddings_world = Some example_vault"
    by (simp_all add: lost_embeddings_world_def cold_world_def)
  have s1: "saved_checksum cold_world \<noteq> hexdigest (hashlib_md5 example_env example_vault)"
    using hexdigest_nonempty [of "hashlib_md5 example_env example_vault"]
    by (simp add: saved_checksum_def cold_world_def)
  have s2: "saved_checksum lost_embeddings_world = hexdigest (hashlib_md5 example_env example_vault)"
    by (simp add: saved_checksum_def lost_embeddings_world_def cold_world_def example_checksum_def
        strip_hexdigest)
  have m1: "saved_checksum cold_world \<noteq> hexdigest (hashlib_md5 example_env example_vault)
              \<or> embeddings_file cold_world = None"
    using s1 by simp
  have m2: "saved_checksum lost_embeddings_world \<noteq> hexdigest (hashlib_md5 example_env example_vault)
              \<or> embeddings_file lost_embeddings_world = None"
    by (simp add: lost_embeddings_world_def cold_world_def)
  have w0: "writes cold_world = []"
    by (simp add: cold_world_def)
  show ?thesis
    using embeddings_written_before_checksum [OF v1 m1 example_generate]
      embeddings_written_before_checksum [OF v2 m2 example_generate] s1 s2 w0
    by (simp add: example_generate example_checksum_def)
qed

text \<open>
  A stop between the two writes does not always leave a mismatched or missing fingerprint:
  started with the right checksum and no embeddings file, it leaves the right checksum next to
  the new tensor, and the next run takes the cache as valid.
\<close>

theorem crash_leaves_matching_fingerprint:
  "embeddings_file lost_embeddings_world = None
   \<and> fst (generate_tensor example_env example_content lost_embeddings_world) = Inr example_tensor
   \<and> saved_checksum (torch_save example_tensor
        (snd (generate_tensor example_env example_content lost_embeddings_world)))
       = example_checksum
   \<and> compute_md5 example_env (torch_save example_tensor
        (snd (generate_tensor example_env example_content lost_embeddings_world)))
       = Inr example_checksum
   \<and> load_or_generate_embeddings example_env example_content
        (torch_save example_tensor
          (snd (generate_tensor example_env example_content lost_embeddings_world)))
       = (Inr (example_tensor, example_checksum),
          torch_save example_tensor
            (snd (generate_tensor example_env example_content lost_embeddings_world)))"
proof -
  let ?wc = "torch_save example_tensor
               (snd (generate_tensor example_env example_content lost_embeddings_world))"
  have v: "vault_file ?wc = Some example_vault"
    by (simp add: example_generate torch_save_def lost_embeddings_world_def cold_world_def)
  have s: "saved_checksum ?wc = hexdigest (hashlib_md5 example_env example_vault)"
    by (simp add: example_generate torch_save_def saved_checksum_def lost_embeddings_world_def
        cold_world_def example_checksum_def strip_hexdigest)
  have f: "embeddings_file ?wc = Some example_tensor"
    by (simp add: torch_save_def)
  have n: "embeddings_file lost_embeddings_world = None"
    by (simp add: lost_embeddings_world_def cold_world_def)
  show ?thesis
    using load_hit [OF v s f] compute_md5_Some [OF v] s n
    by (simp add: example_generate example_checksum_def)
qed

text \<open>
  C9. History, as the code has it. Let \<open>ctx\<close> be the context retrieved for the input.
  If the retrieval returns and the chat request is answered, \<^verbatim>\<open>ollama_chat\<close> returns the
  reply and leaves the history it was given with exactly two entries appended: the user entry
  (the input, with the context in front when there is some) and then the assistant entry,
  whose content is the reply; the reply is the content of the message of the answer, or
  \<^verbatim>\<open>No response content.\<close> when the answer has no message or the message no content. If the
  retrieval returns and the chat request raises, the call raises and leaves the history with
  the user entry appended and nothing else. If the retrieval raises, the call raises and
  leaves the history as it was. In every case the entries that were there stay as they were.
\<close>

theorem ollama_chat_history_growth:
  "(\<forall>ctx response.
       fst (get_relevant_context e user_input t vc 3 w) = Inr ctx
       \<and> ollama_chat_service e model
            (\<lparr>msg_role = ''system'', msg_content = sysmsg\<rparr>
               # history @ [user_message p ctx user_input]) = Inr response
     \<longrightarrow> fst (ollama_chat p e user_input sysmsg t vc model history w)
           = Inr (response_content response)
         \<and> fst (snd (ollama_chat p e user_input sysmsg t vc model history w))
           = history @ [user_message p ctx user_input,
                        \<lparr>msg_role = ''assistant'', msg_content = response_content response\<rparr>]
         \<and> (\<forall>m c. response ''message'' = Some m \<and> m ''content'' = Some c
               \<longrightarrow> response_content response = c)
         \<and> (response ''message'' = None
              \<or> (\<exists>m. response ''message'' = Some m \<and> m ''content'' = None)
             \<longrightarrow> response_content response = ''No response content.''))
   \<and> (\<forall>ctx err.
       fst (get_relevant_context e user_input t vc 3 w) = Inr ctx
       \<and> ollama_chat_service e model
            (\<lparr>msg_role = ''system'', msg_content = sysmsg\<rparr>
               # history @ [user_message p ctx user_input]) = Inl err
     \<longrightarrow> fst (ollama_chat p e user_input sysmsg t vc model history w) = Inl err
         \<and> fst (snd (ollama_chat p e user_input sysmsg t vc model history w))
           = history @ [user_message p ctx user_input])
   \<and> (\<forall>err.
       fst (get_relevant_context e user_input t vc 3 w) = Inl err
     \<longrightarrow> fst (ollama_chat p e user_input sysmsg t vc model history w) = Inl err
         \<and> fst (snd (ollama_chat p e user_input sysmsg t vc model history w)) = history)"
proof (cases "get_relevant_context e user_input t vc 3 w")
  case (Pair res w1)
  show ?thesis
  proof (cases res)
    case (Inl err)
    with Pair show ?thesis
      by (simp add: ollama_chat_def)
  next
    case (Inr ctx)
    let ?messages = "\<lparr>msg_role = ''system'', msg_content = sysmsg\<rparr>
                       # history @ [user_message p ctx user_input]"
    show ?thesis
    proof (cases "ollama_chat_service e model ?messages")
      case (Inl err)
      with Pair \<open>res = Inr ctx\<close> show ?thesis
        by (simp add: ollama_chat_def call_chat_def user_message_def Let_def)
    next
      case answer: (Inr response)
      have fb: "response_content response = ''No response content.''"
        if "response ''message'' = None
              \<or> (\<exists>m. response ''message'' = Some m \<and> m ''content'' = None)"
        using that by (auto simp: response_content_def no_response_content_def)
      have cn: "response_content response = c"
        if "response ''message'' = Some m \<and> m ''content'' = Some c" for m c
        using that by (simp add: response_content_def)
      have "ollama_chat p e user_input sysmsg t vc model history w
              = (Inr (response_content response),
                 history @ [user_message p ctx user_input,
                            \<lparr>msg_role = ''assistant'', msg_content = response_content response\<rparr>],
                 w1\<lparr>chat_calls := chat_calls w1 @ [(model, ?messages)]\<rparr>)"
        using Pair \<open>res = Inr ctx\<close> answer
        by (simp add: ollama_chat_def call_chat_def user_message_def response_content_def Let_def
            split: option.splits)
      with Pair \<open>res = Inr ctx\<close> answer fb cn show ?thesis
        by (simp; blast)
    qed
  qed
qed

theorem ollama_chat_history_growth_witness:
  "fst (ollama_chat Api example_env ''capital?'' ''Be brief.'' example_tensor example_content
          ''llama3.2:latest'' [] warm_world) = Inr ''Paris.''
   \<and> fst (snd (ollama_chat Api example_env ''capital?'' ''Be brief.'' example_tensor
                 example_content ''llama3.2:latest'' [] warm_world))
       = [user_message Api [''Paris'', ''water'', ''sky''] ''capital?'',
          \<lparr>msg_role = ''assistant'', msg_content = ''Paris.''\<rparr>]
   \<and> fst (snd (ollama_chat Api example_env ''capital?'' ''Be brief.'' example_tensor
                 example_content ''mistral'' [] warm_world))
       = [user_message Api [''Paris'', ''water'', ''sky''] ''capital?'',
          \<lparr>msg_role = ''assistant'', msg_content = ''No response content.''\<rparr>]"
proof -
  let ?messages = "\<lparr>msg_role = ''system'', msg_content = ''Be brief.''\<rparr>
                     # [] @ [user_message Api [''Paris'', ''water'', ''sky''] ''capital?'']"
  have c: "fst (get_relevant_context example_env ''capital?'' example_tensor example_content 3
                  warm_world) = Inr [''Paris'', ''water'', ''sky'']"
    by (simp add: example_context)
  have a: "ollama_chat_service example_env ''llama3.2:latest'' ?messages
             = Inr [''message'' \<mapsto> [''content'' \<mapsto> ''Paris.'']]"
    and b: "ollama_chat_service example_env ''mistral'' ?messages = Inr Map.empty"
    by (simp_all add: example_env_def example_chat_def)
  have r1: "response_content [''message'' \<mapsto> [''content'' \<mapsto> ''Paris.'']] = ''Paris.''"
    and r2: "response_content Map.empty = ''No response content.''"
    by (simp_all add: response_content_def no_response_content_def)
  have x: "fst (ollama_chat Api example_env ''capital?'' ''Be brief.'' example_tensor
                  example_content ''llama3.2:latest'' [] warm_world)
             = Inr (response_content [''message'' \<mapsto> [''content'' \<mapsto> ''Paris.'']])
           \<and> fst (snd (ollama_chat Api example_env ''capital?'' ''Be brief.'' example_tensor
                         example_content ''llama3.2:latest'' [] warm_world))
             = [] @ [user_message Api [''Paris'', ''water'', ''sky''] ''capital?'',
                     \<lparr>msg_role = ''assistant'',
                        msg_content = response_content [''message'' \<mapsto> [''content'' \<mapsto> ''Paris.'']]\<rparr>]"
    using ollama_chat_history_growth [of example_env "''capital?''" example_tensor example_content
        warm_world "''llama3.2:latest''" "''Be brief.''" "[]" Api] c a
    by blast
  have y: "fst (snd (ollama_chat Api example_env ''capital?'' ''Be brief.'' example_tensor
                       example_content ''mistral'' [] warm_world))
             = [] @ [user_message Api [''Paris'', ''water'', ''sky''] ''capital?'',
                     \<lparr>msg_role = ''assistant'', msg_content = response_content Map.empty\<rparr>]"
    using ollama_chat_history_growth [of example_env "''capital?''" example_tensor example_content
        warm_world "''mistral''" "''Be brief.''" "[]" Api] c b
    by blast
  show ?thesis
    using x y by (simp add: r1 r2)
qed

text \<open>
  Not every call appends two entries: when the chat request raises, the call raises after
  the user entry was appended, and the history has grown by that one entry.
\<close>

theorem failed_chat_appends_one:
  "fst (ollama_chat Api offline_env ''capital?'' ''Be brief.'' example_tensor example_content
          ''llama3.2:latest'' [] warm_world) = Inl ConnectionError
   \<and> fst (snd (ollama_chat Api offline_env ''capital?'' ''Be brief.'' example_tensor
                 example_content ''llama3.2:latest'' [] warm_world))
       = [user_message Api [''Paris'', ''water'', ''sky''] ''capital?'']
   \<and> length (fst (snd (ollama_chat Api offline_env ''capital?'' ''Be brief.'' example_tensor
                 example_content ''llama3.2:latest'' [] warm_world))) \<noteq> length ([] :: message list) + 2"
proof -
  have s: "ollama_chat_service offline_env = (\<lambda>model messages. Inl ConnectionError)"
    by (simp add: offline_env_def)
  show ?thesis
    by (simp add: ollama_chat_def offline_context example_context call_chat_def s
        user_message_def Let_def)
qed

text \<open>
  C10. Empty input. A request to \<^verbatim>\<open>/chat\<close> whose body has no \<^verbatim>\<open>user_input\<close> or an
  empty one is answered with the error object and status 400; the module variables and the
  world are as before, so the history is unchanged and neither service is called.
\<close>

theorem chat_rejects_empty_input:
  assumes "data ''user_input'' = None \<or> data ''user_input'' = Some []"
  shows "chat e data a w = (Inr ([(''error'', ''Missing 'user_input' in request'')], 400), a, w)"
  using assms by (auto simp: chat_def)

theorem chat_rejects_empty_input_witness:
  "chat example_env Map.empty example_app warm_world
     = (Inr ([(''error'', ''Missing 'user_input' in request'')], 400), example_app, warm_world)"
proof -
  have h: "(Map.empty :: string \<rightharpoonup> string) ''user_input'' = None
             \<or> (Map.empty :: string \<rightharpoonup> string) ''user_input'' = Some []"
    by simp
  show ?thesis by (rule chat_rejects_empty_input [OF h])
qed

end
